theory Spec2Isabelle
  imports Complex_Main "HOL-Library.Word"
begin

section \<open>The graphics interface (src/engine/graphics.h)\<close>

text \<open>
  The C sources are embedded by explicit state passing. A C \<^verbatim>\<open>float\<close> is the real
  number it stands for: the program copies floats (from a literal of \<^verbatim>\<open>main\<close> into a
  library call) and, in one place, makes them from ints (\<open>float_of_int\<close> below); it
  never computes with them. An \<^verbatim>\<open>unsigned char\<close> is an \<open>8 word\<close>. An \<^verbatim>\<open>int\<close> argument
  is only passed on and is an \<open>int\<close>. A \<^verbatim>\<open>const char*\<close> is the string it points to.
\<close>

type_synonym c_float = real
type_synonym uchar = "8 word"

text \<open>
  The conversion C makes when an \<^verbatim>\<open>int\<close> is passed for a \<^verbatim>\<open>float\<close> parameter: a float
  has 24 significant bits, so an int below \<open>2^24\<close> in magnitude is kept, and a larger one
  is rounded to the nearest multiple of \<open>2^e\<close>, a tie going to the even multiple, where
  \<open>e\<close> is the number of bits it has beyond 24.
\<close>

function excess_bits :: "nat \<Rightarrow> nat" where
  "excess_bits a = (if a < 2 ^ 24 then 0 else Suc (excess_bits (a div 2)))"
  by pat_completeness auto
termination
  by (relation "measure id") auto

declare excess_bits.simps [simp del]

definition float_of_int :: "int \<Rightarrow> c_float" where
  "float_of_int i =
     (let a = nat \<bar>i\<bar> in
      if a < 2 ^ 24 then real_of_int i
      else
        let e = excess_bits a;
            q = a div 2 ^ e;
            r = a mod 2 ^ e;
            half = 2 ^ (e - 1);
            q = (if r > half \<or> (r = half \<and> odd q) then q + 1 else q)
        in if i < 0 then - real (q * 2 ^ e) else real (q * 2 ^ e))"

datatype GraphicsBackend = GRAPHICS_RAYLIB | GRAPHICS_SDL3

text \<open>
  \<^verbatim>\<open>typedef struct { float x, y, width, height; } GfxRectangle;\<close> and
  \<^verbatim>\<open>typedef struct { unsigned char r, g, b, a; } GfxColor;\<close>. The constructors take the
  fields in declaration order, as the compound literals of the source do.
\<close>

datatype GfxRectangle = GfxRectangle c_float c_float c_float c_float
datatype GfxColor = GfxColor uchar uchar uchar uchar

definition COLOR_WHITE :: GfxColor where "COLOR_WHITE = GfxColor 255 255 255 255"
definition COLOR_BLACK :: GfxColor where "COLOR_BLACK = GfxColor 0 0 0 255"
definition COLOR_RED :: GfxColor where "COLOR_RED = GfxColor 255 0 0 255"
definition COLOR_GREEN :: GfxColor where "COLOR_GREEN = GfxColor 0 255 0 255"
definition COLOR_BLUE :: GfxColor where "COLOR_BLUE = GfxColor 0 0 255 255"
definition COLOR_GRAY :: GfxColor where "COLOR_GRAY = GfxColor 128 128 128 255"

section \<open>The outside world: the two native libraries\<close>

text \<open>
  Raylib and SDL3 are not part of the repository. A call into them that has an effect
  (a window, a drawing command, a log line, a line on stdout) is recorded, with the
  arguments the call site passes, in the order of issue. A call that only asks for
  input (\<^verbatim>\<open>WindowShouldClose\<close>, \<^verbatim>\<open>SDL_PollEvent\<close>, \<^verbatim>\<open>SDL_GetError\<close>) reads its answer
  from \<open>lib_state\<close>, the part of the world the libraries own.
  A pointer is \<open>None\<close> when it is \<^verbatim>\<open>NULL\<close>.
\<close>

datatype Color = Color uchar uchar uchar uchar
datatype Rectangle = Rectangle c_float c_float c_float c_float
datatype SDL_FRect = SDL_FRect c_float c_float c_float c_float

type_synonym pointer = "nat option"

datatype SDL_EventType = SDL_EVENT_QUIT | SDL_EVENT_KEY_DOWN | SDL_EVENT_other nat
datatype SDL_Keycode = SDLK_ESCAPE | SDLK_other nat

text \<open>An event as the code reads it: \<^verbatim>\<open>e.type\<close> and \<^verbatim>\<open>e.key.key\<close>.\<close>

datatype SDL_Event = SDL_Event SDL_EventType SDL_Keycode

datatype lib_call =
    InitWindow int int string
  | SetTargetFPS int
  | CloseWindow
  | BeginDrawing
  | EndDrawing
  | ClearBackground Color
  | DrawRectangleRec Rectangle Color
  | DrawText string int int int Color
  | SDL_Init_VIDEO
  | SDL_Log string string
  | SDL_CreateWindow string int int
  | SDL_CreateRenderer pointer
  | SDL_DestroyRenderer pointer
  | SDL_DestroyWindow pointer
  | SDL_Quit
  | SDL_RenderPresent pointer
  | SDL_SetRenderDrawColor pointer uchar uchar uchar uchar
  | SDL_RenderClear pointer
  | SDL_RenderFillRect pointer SDL_FRect
  | SDL_RenderDebugText pointer c_float c_float string
  | printf string

record lib_state =
  WindowShouldClose :: bool
  SDL_Init_result :: bool
  SDL_CreateWindow_result :: pointer
  SDL_CreateRenderer_result :: pointer
  SDL_GetError :: string
  SDL_event_queue :: "SDL_Event list"

text \<open>
  The world a backend file sees: the calls issued so far, the libraries' state, and the
  three file-scope statics of the SDL3 backend
  (\<^verbatim>\<open>static SDL_Window* window = NULL; static SDL_Renderer* renderer = NULL;
  static bool should_close = false;\<close>). In a Raylib build the statics do not exist;
  no Raylib function below touches them.
\<close>

record world =
  calls :: "lib_call list"
  lib :: lib_state
  window :: pointer
  renderer :: pointer
  should_close :: bool

definition issue :: "lib_call \<Rightarrow> world \<Rightarrow> world" where
  "issue c s = s\<lparr>calls := calls s @ [c]\<rparr>"

section \<open>The Raylib backend (src/platform/raylib_impl.c)\<close>

fun raylib_color_from_gfx_color :: "GfxColor \<Rightarrow> Color" where
  "raylib_color_from_gfx_color (GfxColor r g b a) = Color r g b a"

fun raylib_rectangle_from_gfx_rectangle :: "GfxRectangle \<Rightarrow> Rectangle" where
  "raylib_rectangle_from_gfx_rectangle (GfxRectangle x y w h) = Rectangle x y w h"

definition raylib_platform_graphics_init :: "int \<Rightarrow> int \<Rightarrow> string \<Rightarrow> world \<Rightarrow> world" where
  "raylib_platform_graphics_init width height title s =
     (let s = issue (InitWindow width height title) s;
          s = issue (SetTargetFPS 60) s
      in s)"

definition raylib_platform_graphics_shutdown :: "world \<Rightarrow> world" where
  "raylib_platform_graphics_shutdown s = issue CloseWindow s"

definition raylib_platform_graphics_should_close :: "world \<Rightarrow> bool \<times> world" where
  "raylib_platform_graphics_should_close s = (WindowShouldClose (lib s), s)"

definition raylib_platform_graphics_begin_frame :: "world \<Rightarrow> world" where
  "raylib_platform_graphics_begin_frame s = issue BeginDrawing s"

definition raylib_platform_graphics_end_frame :: "world \<Rightarrow> world" where
  "raylib_platform_graphics_end_frame s = issue EndDrawing s"

definition raylib_platform_graphics_clear :: "GfxColor \<Rightarrow> world \<Rightarrow> world" where
  "raylib_platform_graphics_clear color s =
     issue (ClearBackground (raylib_color_from_gfx_color color)) s"

definition raylib_platform_graphics_draw_rectangle ::
  "GfxRectangle \<Rightarrow> GfxColor \<Rightarrow> world \<Rightarrow> world" where
  "raylib_platform_graphics_draw_rectangle rect color s =
     (let raylib_rect = raylib_rectangle_from_gfx_rectangle rect;
          raylib_color = raylib_color_from_gfx_color color
      in issue (DrawRectangleRec raylib_rect raylib_color) s)"

definition raylib_platform_graphics_draw_texture ::
  "int \<Rightarrow> GfxRectangle \<Rightarrow> GfxColor \<Rightarrow> world \<Rightarrow> world" where
  "raylib_platform_graphics_draw_texture texture_id dest tint s = s"

definition raylib_platform_graphics_draw_text ::
  "string \<Rightarrow> int \<Rightarrow> int \<Rightarrow> int \<Rightarrow> GfxColor \<Rightarrow> world \<Rightarrow> world" where
  "raylib_platform_graphics_draw_text txt x y sz color s =
     (let raylib_color = raylib_color_from_gfx_color color
      in issue (DrawText txt x y sz raylib_color) s)"

definition raylib_platform_graphics_load_texture :: "string \<Rightarrow> world \<Rightarrow> int \<times> world" where
  "raylib_platform_graphics_load_texture filename s = (1, s)"

definition raylib_platform_graphics_unload_texture :: "int \<Rightarrow> world \<Rightarrow> world" where
  "raylib_platform_graphics_unload_texture texture_id s = s"

section \<open>The SDL3 backend (src/platform/sdl3_impl.c, the first part of unnamed/part_002)\<close>

text \<open>
  \<^verbatim>\<open>SDL_RenderDebugText\<close> takes its coordinates as floats, so the call in
  \<^verbatim>\<open>platform_graphics_draw_text\<close> converts the two ints.
  Each early \<^verbatim>\<open>return\<close> of \<^verbatim>\<open>platform_graphics_init\<close> is a branch. After a failed
  \<^verbatim>\<open>SDL_CreateRenderer\<close> the window is destroyed but the static keeps its pointer, as in
  the source.
\<close>

definition sdl3_platform_graphics_init :: "int \<Rightarrow> int \<Rightarrow> string \<Rightarrow> world \<Rightarrow> world" where
  "sdl3_platform_graphics_init width height title s =
     (let s = issue SDL_Init_VIDEO s in
      if \<not> SDL_Init_result (lib s) then
        issue (SDL_Log ''SDL could not initialize! SDL_Error: %s\<newline>'' (SDL_GetError (lib s))) s
      else
        let s = issue (SDL_CreateWindow title width height) s;
            s = s\<lparr>window := SDL_CreateWindow_result (lib s)\<rparr>
        in
        if window s = None then
          (let s = issue (SDL_Log ''Window could not be created! SDL_Error: %s\<newline>''
                            (SDL_GetError (lib s))) s;
               s = issue SDL_Quit s
           in s)
        else
          let s = issue (SDL_CreateRenderer (window s)) s;
              s = s\<lparr>renderer := SDL_CreateRenderer_result (lib s)\<rparr>
          in
          if renderer s = None then
            (let s = issue (SDL_Log ''Renderer could not be created! SDL_Error: %s\<newline>''
                              (SDL_GetError (lib s))) s;
                 s = issue (SDL_DestroyWindow (window s)) s;
                 s = issue SDL_Quit s
             in s)
          else s)"

definition sdl3_platform_graphics_shutdown :: "world \<Rightarrow> world" where
  "sdl3_platform_graphics_shutdown s =
     (let s = (if renderer s \<noteq> None
               then (issue (SDL_DestroyRenderer (renderer s)) s)\<lparr>renderer := None\<rparr>
               else s);
          s = (if window s \<noteq> None
               then (issue (SDL_DestroyWindow (window s)) s)\<lparr>window := None\<rparr>
               else s)
      in issue SDL_Quit s)"

text \<open>
  The loop \<^verbatim>\<open>while (SDL_PollEvent(&e)) { ... }\<close> takes the queued events one by one,
  oldest first, until the queue is empty; it is a recursion over the queue.
\<close>

fun sdl3_poll_events :: "SDL_Event list \<Rightarrow> world \<Rightarrow> world" where
  "sdl3_poll_events [] s = s\<lparr>lib := (lib s)\<lparr>SDL_event_queue := []\<rparr>\<rparr>"
| "sdl3_poll_events (SDL_Event ty k # es) s =
     sdl3_poll_events es
       (if ty = SDL_EVENT_QUIT then s\<lparr>should_close := True\<rparr>
        else if ty = SDL_EVENT_KEY_DOWN \<and> k = SDLK_ESCAPE then s\<lparr>should_close := True\<rparr>
        else s)"

definition sdl3_platform_graphics_should_close :: "world \<Rightarrow> bool \<times> world" where
  "sdl3_platform_graphics_should_close s =
     (let s = sdl3_poll_events (SDL_event_queue (lib s)) s
      in (should_close s, s))"

definition sdl3_platform_graphics_begin_frame :: "world \<Rightarrow> world" where
  "sdl3_platform_graphics_begin_frame s = s"

definition sdl3_platform_graphics_end_frame :: "world \<Rightarrow> world" where
  "sdl3_platform_graphics_end_frame s = issue (SDL_RenderPresent (renderer s)) s"

fun sdl3_platform_graphics_clear :: "GfxColor \<Rightarrow> world \<Rightarrow> world" where
  "sdl3_platform_graphics_clear (GfxColor r g b a) s =
     (let s = issue (SDL_SetRenderDrawColor (renderer s) r g b a) s;
          s = issue (SDL_RenderClear (renderer s)) s
      in s)"

fun sdl3_platform_graphics_draw_rectangle :: "GfxRectangle \<Rightarrow> GfxColor \<Rightarrow> world \<Rightarrow> world" where
  "sdl3_platform_graphics_draw_rectangle (GfxRectangle x y w h) (GfxColor r g b a) s =
     (let sdl_rect = SDL_FRect x y w h;
          s = issue (SDL_SetRenderDrawColor (renderer s) r g b a) s;
          s = issue (SDL_RenderFillRect (renderer s) sdl_rect) s
      in s)"

definition sdl3_platform_graphics_draw_texture ::
  "int \<Rightarrow> GfxRectangle \<Rightarrow> GfxColor \<Rightarrow> world \<Rightarrow> world" where
  "sdl3_platform_graphics_draw_texture texture_id dest tint s = s"

fun sdl3_platform_graphics_draw_text ::
  "string \<Rightarrow> int \<Rightarrow> int \<Rightarrow> int \<Rightarrow> GfxColor \<Rightarrow> world \<Rightarrow> world" where
  "sdl3_platform_graphics_draw_text txt x y sz (GfxColor r g b a) s =
     (let s = issue (SDL_SetRenderDrawColor (renderer s) r g b a) s;
          s = issue (SDL_RenderDebugText (renderer s) (float_of_int x) (float_of_int y) txt) s
      in s)"

definition sdl3_platform_graphics_load_texture :: "string \<Rightarrow> world \<Rightarrow> int \<times> world" where
  "sdl3_platform_graphics_load_texture filename s = (1, s)"

definition sdl3_platform_graphics_unload_texture :: "int \<Rightarrow> world \<Rightarrow> world" where
  "sdl3_platform_graphics_unload_texture texture_id s = s"

section \<open>The dispatch layer (src/engine/graphics.c, the second part of unnamed/part_002)\<close>

text \<open>
  \<^verbatim>\<open>graphics.c\<close> declares the eleven \<^verbatim>\<open>platform_graphics_*\<close> functions
  \<^verbatim>\<open>extern\<close> and is written against whatever defines them: a \<open>platform\<close> is one
  such set of definitions. The functions of a backend file cannot name
  \<^verbatim>\<open>current_backend\<close>, a \<^verbatim>\<open>static\<close> of \<^verbatim>\<open>graphics.c\<close>; they work on the \<open>world\<close>.
\<close>

record platform =
  platform_graphics_init :: "int \<Rightarrow> int \<Rightarrow> string \<Rightarrow> world \<Rightarrow> world"
  platform_graphics_shutdown :: "world \<Rightarrow> world"
  platform_graphics_should_close :: "world \<Rightarrow> bool \<times> world"
  platform_graphics_begin_frame :: "world \<Rightarrow> world"
  platform_graphics_end_frame :: "world \<Rightarrow> world"
  platform_graphics_clear :: "GfxColor \<Rightarrow> world \<Rightarrow> world"
  platform_graphics_draw_rectangle :: "GfxRectangle \<Rightarrow> GfxColor \<Rightarrow> world \<Rightarrow> world"
  platform_graphics_draw_texture :: "int \<Rightarrow> GfxRectangle \<Rightarrow> GfxColor \<Rightarrow> world \<Rightarrow> world"
  platform_graphics_draw_text :: "string \<Rightarrow> int \<Rightarrow> int \<Rightarrow> int \<Rightarrow> GfxColor \<Rightarrow> world \<Rightarrow> world"
  platform_graphics_load_texture :: "string \<Rightarrow> world \<Rightarrow> int \<times> world"
  platform_graphics_unload_texture :: "int \<Rightarrow> world \<Rightarrow> world"

definition raylib_impl :: platform where
  "raylib_impl =
     \<lparr>platform_graphics_init = raylib_platform_graphics_init,
      platform_graphics_shutdown = raylib_platform_graphics_shutdown,
      platform_graphics_should_close = raylib_platform_graphics_should_close,
      platform_graphics_begin_frame = raylib_platform_graphics_begin_frame,
      platform_graphics_end_frame = raylib_platform_graphics_end_frame,
      platform_graphics_clear = raylib_platform_graphics_clear,
      platform_graphics_draw_rectangle = raylib_platform_graphics_draw_rectangle,
      platform_graphics_draw_texture = raylib_platform_graphics_draw_texture,
      platform_graphics_draw_text = raylib_platform_graphics_draw_text,
      platform_graphics_load_texture = raylib_platform_graphics_load_texture,
      platform_graphics_unload_texture = raylib_platform_graphics_unload_texture\<rparr>"

definition sdl3_impl :: platform where
  "sdl3_impl =
     \<lparr>platform_graphics_init = sdl3_platform_graphics_init,
      platform_graphics_shutdown = sdl3_platform_graphics_shutdown,
      platform_graphics_should_close = sdl3_platform_graphics_should_close,
      platform_graphics_begin_frame = sdl3_platform_graphics_begin_frame,
      platform_graphics_end_frame = sdl3_platform_graphics_end_frame,
      platform_graphics_clear = sdl3_platform_graphics_clear,
      platform_graphics_draw_rectangle = sdl3_platform_graphics_draw_rectangle,
      platform_graphics_draw_texture = sdl3_platform_graphics_draw_texture,
      platform_graphics_draw_text = sdl3_platform_graphics_draw_text,
      platform_graphics_load_texture = sdl3_platform_graphics_load_texture,
      platform_graphics_unload_texture = sdl3_platform_graphics_unload_texture\<rparr>"

text \<open>
  The program's state: the world and
  \<^verbatim>\<open>static GraphicsBackend current_backend = GRAPHICS_RAYLIB;\<close>.
\<close>

record program =
  current_backend :: GraphicsBackend
  plat :: world

definition graphics_init ::
  "platform \<Rightarrow> int \<Rightarrow> int \<Rightarrow> string \<Rightarrow> GraphicsBackend \<Rightarrow> program \<Rightarrow> program" where
  "graphics_init P width height title backend g =
     (let g = g\<lparr>current_backend := backend\<rparr>
      in g\<lparr>plat := platform_graphics_init P width height title (plat g)\<rparr>)"

definition graphics_shutdown :: "platform \<Rightarrow> program \<Rightarrow> program" where
  "graphics_shutdown P g = g\<lparr>plat := platform_graphics_shutdown P (plat g)\<rparr>"

definition graphics_should_close :: "platform \<Rightarrow> program \<Rightarrow> bool \<times> program" where
  "graphics_should_close P g =
     (case platform_graphics_should_close P (plat g) of (r, s) \<Rightarrow> (r, g\<lparr>plat := s\<rparr>))"

definition graphics_begin_frame :: "platform \<Rightarrow> program \<Rightarrow> program" where
  "graphics_begin_frame P g = g\<lparr>plat := platform_graphics_begin_frame P (plat g)\<rparr>"

definition graphics_end_frame :: "platform \<Rightarrow> program \<Rightarrow> program" where
  "graphics_end_frame P g = g\<lparr>plat := platform_graphics_end_frame P (plat g)\<rparr>"

definition graphics_clear :: "platform \<Rightarrow> GfxColor \<Rightarrow> program \<Rightarrow> program" where
  "graphics_clear P color g = g\<lparr>plat := platform_graphics_clear P color (plat g)\<rparr>"

definition graphics_draw_rectangle ::
  "platform \<Rightarrow> GfxRectangle \<Rightarrow> GfxColor \<Rightarrow> program \<Rightarrow> program" where
  "graphics_draw_rectangle P rect color g =
     g\<lparr>plat := platform_graphics_draw_rectangle P rect color (plat g)\<rparr>"

definition graphics_draw_texture ::
  "platform \<Rightarrow> int \<Rightarrow> GfxRectangle \<Rightarrow> GfxColor \<Rightarrow> program \<Rightarrow> program" where
  "graphics_draw_texture P texture_id dest tint g =
     g\<lparr>plat := platform_graphics_draw_texture P texture_id dest tint (plat g)\<rparr>"

definition graphics_draw_text ::
  "platform \<Rightarrow> string \<Rightarrow> int \<Rightarrow> int \<Rightarrow> int \<Rightarrow> GfxColor \<Rightarrow> program \<Rightarrow> program" where
  "graphics_draw_text P txt x y sz color g =
     g\<lparr>plat := platform_graphics_draw_text P txt x y sz color (plat g)\<rparr>"

definition graphics_load_texture :: "platform \<Rightarrow> string \<Rightarrow> program \<Rightarrow> int \<times> program" where
  "graphics_load_texture P filename g =
     (case platform_graphics_load_texture P filename (plat g) of (r, s) \<Rightarrow> (r, g\<lparr>plat := s\<rparr>))"

definition graphics_unload_texture :: "platform \<Rightarrow> int \<Rightarrow> program \<Rightarrow> program" where
  "graphics_unload_texture P texture_id g =
     g\<lparr>plat := platform_graphics_unload_texture P texture_id (plat g)\<rparr>"

section \<open>Which backend a build binds (src/build.zig, the guards of the backend files)\<close>

datatype macro = GRAPHICS_BACKEND_RAYLIB | GRAPHICS_BACKEND_SDL3 | PLATFORM_WEB | NO_STDIO

datatype source_file = main_c | graphics_c | raylib_impl_c | sdl3_impl_c

text \<open>
  \<^verbatim>\<open>raylib_impl.c\<close> is wrapped, first line to last, in
  \<^verbatim>\<open>#ifdef GRAPHICS_BACKEND_RAYLIB ... #endif\<close>, and \<^verbatim>\<open>sdl3_impl.c\<close> in
  \<^verbatim>\<open>#ifdef GRAPHICS_BACKEND_SDL3 ... #endif\<close>: under a set \<open>D\<close> of defined macros
  a file contributes its eleven definitions or nothing. \<^verbatim>\<open>main.c\<close> and
  \<^verbatim>\<open>graphics.c\<close> define no \<^verbatim>\<open>platform_graphics_*\<close> function.
\<close>

fun platform_definitions :: "source_file \<Rightarrow> macro set \<Rightarrow> platform list" where
  "platform_definitions raylib_impl_c D =
     (if GRAPHICS_BACKEND_RAYLIB \<in> D then [raylib_impl] else [])"
| "platform_definitions sdl3_impl_c D =
     (if GRAPHICS_BACKEND_SDL3 \<in> D then [sdl3_impl] else [])"
| "platform_definitions main_c D = []"
| "platform_definitions graphics_c D = []"

text \<open>
  \<^verbatim>\<open>build.zig\<close>: the option \<^verbatim>\<open>-Dgraphics\<close> (\<^verbatim>\<open>raylib\<close> when absent) adds one backend
  file and defines its macro; a WebAssembly target defines two more macros.
\<close>

datatype graphics_option = raylib | sdl3

record executable =
  files :: "source_file list"
  macros :: "macro set"

definition build :: "graphics_option option \<Rightarrow> bool \<Rightarrow> executable" where
  "build graphics is_wasm =
     (let graphics_backend = (case graphics of Some chosen \<Rightarrow> chosen | None \<Rightarrow> raylib);
          exe = \<lparr>files = [main_c, graphics_c], macros = {}\<rparr>;
          exe = (case graphics_backend of
                   raylib \<Rightarrow> exe\<lparr>files := files exe @ [raylib_impl_c],
                                 macros := insert GRAPHICS_BACKEND_RAYLIB (macros exe)\<rparr>
                 | sdl3 \<Rightarrow> exe\<lparr>files := files exe @ [sdl3_impl_c],
                               macros := insert GRAPHICS_BACKEND_SDL3 (macros exe)\<rparr>);
          exe = (if is_wasm
                 then exe\<lparr>macros := insert NO_STDIO (insert PLATFORM_WEB (macros exe))\<rparr>
                 else exe)
      in exe)"

text \<open>
  Linking resolves the \<^verbatim>\<open>extern\<close> declarations of \<^verbatim>\<open>graphics.c\<close> when exactly one
  compiled file defines the functions; with none (undefined symbols) or two (duplicate
  symbols) there is no executable.
\<close>

definition linked_platform :: "executable \<Rightarrow> platform option" where
  "linked_platform exe =
     (case concat (map (\<lambda>f. platform_definitions f (macros exe)) (files exe)) of
        [P] \<Rightarrow> Some P
      | _ \<Rightarrow> None)"

section \<open>The entry point (src/main.c)\<close>


text \<open>The body of the \<^verbatim>\<open>while\<close> loop, statement by statement.\<close>

definition main_loop_body :: "platform \<Rightarrow> program \<Rightarrow> program" where
  "main_loop_body P g =
     (let g = graphics_begin_frame P g;
          g = graphics_clear P (GfxColor 20 30 80 255) g;
          g = graphics_draw_rectangle P (GfxRectangle 100 100 50 50) COLOR_RED g;
          g = graphics_draw_rectangle P (GfxRectangle 200 150 80 30) COLOR_GREEN g;
          g = graphics_draw_rectangle P (GfxRectangle 350 200 100 100) COLOR_BLUE g;
          g = graphics_draw_text P ''Infinite Runner - Press ESC to close'' 10 10 20 COLOR_WHITE g;
          g = graphics_draw_text P ''WASD to test (placeholder)'' 10 40 16 COLOR_GRAY g;
          g = graphics_end_frame P g
      in g)"

text \<open>
  \<^verbatim>\<open>while (!graphics_should_close()) { ... }\<close> need not end, so the loop takes fuel:
  \<open>None\<close> is a run that is still looping when the fuel is spent. What the user and the
  window system do is outside the program: \<open>outside i\<close> is the state of the libraries
  that the \<open>i\<close>-th evaluation of the loop condition finds.
\<close>

fun main_loop :: "platform \<Rightarrow> (nat \<Rightarrow> lib_state) \<Rightarrow> nat \<Rightarrow> nat \<Rightarrow> program \<Rightarrow> program option" where
  "main_loop P outside 0 i g = None"
| "main_loop P outside (Suc fuel) i g =
     (case graphics_should_close P (g\<lparr>plat := (plat g)\<lparr>lib := outside i\<rparr>\<rparr>) of
        (closing, g) \<Rightarrow>
          if closing then Some g
          else main_loop P outside fuel (Suc i) (main_loop_body P g))"



text \<open>The statics as the loader initialises them, in a world \<open>l\<close> with nothing issued yet.\<close>

definition program_start :: "lib_state \<Rightarrow> program" where
  "program_start l =
     \<lparr>current_backend = GRAPHICS_RAYLIB,
      plat = \<lparr>calls = [], lib = l, window = None, renderer = None, should_close = False\<rparr>\<rparr>"


section \<open>Sequences of calls of the public interface\<close>

text \<open>
  To speak about every sequence of graphics calls: a call of the interface with its
  arguments, what it returns, and a run that interleaves calls with changes the outside
  makes to the libraries' state.
\<close>

datatype gfx_call =
    Call_init int int string GraphicsBackend
  | Call_shutdown
  | Call_should_close
  | Call_begin_frame
  | Call_end_frame
  | Call_clear GfxColor
  | Call_draw_rectangle GfxRectangle GfxColor
  | Call_draw_texture int GfxRectangle GfxColor
  | Call_draw_text string int int int GfxColor
  | Call_load_texture string
  | Call_unload_texture int

datatype gfx_result = Returns_void | Returns_bool bool | Returns_int int

fun graphics_call :: "platform \<Rightarrow> gfx_call \<Rightarrow> program \<Rightarrow> gfx_result \<times> program" where
  "graphics_call P (Call_init w h title backend) g =
     (Returns_void, graphics_init P w h title backend g)"
| "graphics_call P Call_shutdown g = (Returns_void, graphics_shutdown P g)"
| "graphics_call P Call_should_close g =
     (case graphics_should_close P g of (r, g) \<Rightarrow> (Returns_bool r, g))"
| "graphics_call P Call_begin_frame g = (Returns_void, graphics_begin_frame P g)"
| "graphics_call P Call_end_frame g = (Returns_void, graphics_end_frame P g)"
| "graphics_call P (Call_clear color) g = (Returns_void, graphics_clear P color g)"
| "graphics_call P (Call_draw_rectangle rect color) g =
     (Returns_void, graphics_draw_rectangle P rect color g)"
| "graphics_call P (Call_draw_texture texture_id dest tint) g =
     (Returns_void, graphics_draw_texture P texture_id dest tint g)"
| "graphics_call P (Call_draw_text txt x y sz color) g =
     (Returns_void, graphics_draw_text P txt x y sz color g)"
| "graphics_call P (Call_load_texture filename) g =
     (case graphics_load_texture P filename g of (r, g) \<Rightarrow> (Returns_int r, g))"
| "graphics_call P (Call_unload_texture texture_id) g =
     (Returns_void, graphics_unload_texture P texture_id g)"

datatype step = Call gfx_call | Outside lib_state

fun run_steps :: "platform \<Rightarrow> step list \<Rightarrow> program \<Rightarrow> gfx_result list \<times> program" where
  "run_steps P [] g = ([], g)"
| "run_steps P (Call c # steps) g =
     (case graphics_call P c g of
        (r, g) \<Rightarrow> (case run_steps P steps g of (rs, g) \<Rightarrow> (r # rs, g)))"
| "run_steps P (Outside l # steps) g =
     run_steps P steps (g\<lparr>plat := (plat g)\<lparr>lib := l\<rparr>\<rparr>)"

section \<open>Auxiliary notions for the statements\<close>

text \<open>
  The condition under which the polling loop of the SDL3 backend sets
  \<^verbatim>\<open>should_close\<close>, for one event.
\<close>

fun closes_window :: "SDL_Event \<Rightarrow> bool" where
  "closes_window (SDL_Event ty k) =
     (ty = SDL_EVENT_QUIT \<or> (ty = SDL_EVENT_KEY_DOWN \<and> k = SDLK_ESCAPE))"



text \<open>
  Sample surroundings for the concrete runs: libraries that succeed and report nothing,
  a user who presses a letter key in every frame and closes the window in frame \<open>k\<close>,
  and queues that hold an ESCAPE key-down, a quit event after a letter, a letter only.
\<close>

definition quiet :: lib_state where
  "quiet =
     \<lparr>WindowShouldClose = False, SDL_Init_result = True,
      SDL_CreateWindow_result = Some 1, SDL_CreateRenderer_result = Some 2,
      SDL_GetError = [], SDL_event_queue = []\<rparr>"


definition escape_pressed :: lib_state where
  "escape_pressed = quiet\<lparr>SDL_event_queue := [SDL_Event SDL_EVENT_KEY_DOWN SDLK_ESCAPE]\<rparr>"

definition quit_requested :: lib_state where
  "quit_requested =
     quiet\<lparr>SDL_event_queue :=
             [SDL_Event SDL_EVENT_KEY_DOWN (SDLK_other 97), SDL_Event SDL_EVENT_QUIT (SDLK_other 0)]\<rparr>"

definition letter_pressed :: lib_state where
  "letter_pressed = quiet\<lparr>SDL_event_queue := [SDL_Event SDL_EVENT_KEY_DOWN (SDLK_other 97)]\<rparr>"

section \<open>The simulation core as the specification describes it\<close>

text \<open>
  The repository has no game logic (its README lists player, obstacles and physics as
  to do); the definitions of this section follow the specification's text. Its floats
  are taken as real numbers: rounding is outside this model.
\<close>

subsection \<open>Difficulty scheduler (spec 4.3)\<close>

text \<open>
  Modelled from the spec: the difficulty scheduler's \<^verbatim>\<open>speedMultiplier\<close>, which no source
  file implements. "\<^verbatim>\<open>speedMultiplier(t) = min(1 + 0.15 * floor(t / 5), 2.5)\<close>".
\<close>

definition speedMultiplier :: "real \<Rightarrow> real" where
  "speedMultiplier t = min (1 + 0.15 * of_int \<lfloor>t / 5\<rfloor>) 2.5"

subsection \<open>Data model (spec 3)\<close>

text \<open>
  Modelled from the spec: the player's action state, "enum {RUNNING, JUMPING, CROUCHING,
  DEAD}", which no source file declares.
\<close>

datatype PlayerState = RUNNING | JUMPING | CROUCHING | DEAD

text \<open>
  Modelled from the spec: the kinematic body the physics integrator advances, which no
  source file declares: a position and a velocity (each a Vector2, here its two
  coordinates) and the ground flag the integrator sets.
\<close>

record Body =
  position_x :: real
  position_y :: real
  velocity_x :: real
  velocity_y :: real
  isGrounded :: bool

text \<open>
  Modelled from the spec: the Player, which no source file declares: "position: Vector2;
  velocity: Vector2; state: PlayerState; isGrounded: bool", that is a body with an
  action state.
\<close>

record Player = Body +
  state :: PlayerState

text \<open>
  Modelled from the spec: the input snapshot of one tick, which no source file declares:
  "{jumpPressedThisTick: bool, crouchHeld: bool, restartPressedThisTick: bool}".
\<close>

record Input =
  jumpPressedThisTick :: bool
  crouchHeld :: bool
  restartPressedThisTick :: bool

subsection \<open>Physics integrator (spec 4.1)\<close>

text \<open>
  Modelled from the spec: the maximum time step, which no source file defines: "a
  maximum step (e.g., 1/30 s)".
\<close>

definition MAX_STEP :: real where "MAX_STEP = 1 / 30"

text \<open>
  Modelled from the spec: gravity, which no source file defines: "a positive magnitude
  (800 units/s^2) applied as downward (increasing y, y-down screen convention)".
\<close>

definition GRAVITY :: real where "GRAVITY = 800"

text \<open>
  Modelled from the spec: the jump velocity, which no source file defines:
  "\<^verbatim>\<open>velocity.y = -350\<close> (upward)".
\<close>

definition JUMP_VELOCITY :: real where "JUMP_VELOCITY = - 350"

text \<open>
  Modelled from the spec: the clamp of the time step, which no source file implements:
  "dt is clamped to a maximum step (e.g., 1/30 s) before integration".
\<close>

definition clamp_dt :: "real \<Rightarrow> real" where
  "clamp_dt dt = min dt MAX_STEP"

text \<open>
  Modelled from the spec: the first stage of \<^verbatim>\<open>integrate\<close>, which no source file
  implements: "Applies \<^verbatim>\<open>velocity.y += gravity * dt\<close>".
\<close>

definition apply_gravity :: "real \<Rightarrow> real \<Rightarrow> 'a Body_scheme \<Rightarrow> 'a Body_scheme" where
  "apply_gravity gravity dt body = body\<lparr>velocity_y := velocity_y body + gravity * dt\<rparr>"

text \<open>
  Modelled from the spec: the second stage of \<^verbatim>\<open>integrate\<close>, which no source file
  implements: "then \<^verbatim>\<open>position += velocity * dt\<close>", on both coordinates.
\<close>

definition advance_position :: "real \<Rightarrow> 'a Body_scheme \<Rightarrow> 'a Body_scheme" where
  "advance_position dt body =
     body\<lparr>position_x := position_x body + velocity_x body * dt,
          position_y := position_y body + velocity_y body * dt\<rparr>"

text \<open>
  Modelled from the spec: the third stage of \<^verbatim>\<open>integrate\<close>, which no source file
  implements: "Ground contact resolution: if resulting \<^verbatim>\<open>position.y >= groundY\<close>, clamp
  \<^verbatim>\<open>position.y = groundY\<close>, set \<^verbatim>\<open>velocity.y = 0\<close>, \<^verbatim>\<open>isGrounded = true\<close>; otherwise
  \<^verbatim>\<open>isGrounded = false\<close>."
\<close>

definition resolve_ground_contact :: "real \<Rightarrow> 'a Body_scheme \<Rightarrow> 'a Body_scheme" where
  "resolve_ground_contact groundY body =
     (if position_y body \<ge> groundY
      then body\<lparr>position_y := groundY, velocity_y := 0, isGrounded := True\<rparr>
      else body\<lparr>isGrounded := False\<rparr>)"

text \<open>
  Modelled from the spec: \<^verbatim>\<open>integrate(body, dt, gravity) -> body'\<close>, which no source
  file implements: the clamp, then the three stages in the order of the text. The ground
  line \<^verbatim>\<open>groundY\<close>, which the contract uses without listing it, is a fourth argument.
\<close>

definition integrate :: "'a Body_scheme \<Rightarrow> real \<Rightarrow> real \<Rightarrow> real \<Rightarrow> 'a Body_scheme" where
  "integrate body dt gravity groundY =
     (let dt = clamp_dt dt;
          body = apply_gravity gravity dt body;
          body = advance_position dt body
      in resolve_ground_contact groundY body)"

subsection \<open>Player state machine (spec 4.2)\<close>

text \<open>
  Modelled from the spec: the input rules 2 to 4 of the player state machine, which no
  source file implements, tried in the order of the text, the first that applies
  winning ("jump checked before crouch"):
  rule 2, "Jump request AND \<^verbatim>\<open>isGrounded == true\<close> AND \<^verbatim>\<open>state != CROUCHING\<close>: set
  \<^verbatim>\<open>velocity.y = -350\<close>, \<^verbatim>\<open>state = JUMPING\<close>, \<^verbatim>\<open>isGrounded = false\<close>";
  rule 3, "Crouch input held AND \<^verbatim>\<open>isGrounded == true\<close> AND \<^verbatim>\<open>state != JUMPING\<close>:
  \<^verbatim>\<open>state = CROUCHING\<close>";
  rule 4, "Crouch input released while \<^verbatim>\<open>state == CROUCHING\<close>: \<^verbatim>\<open>state = RUNNING\<close>".
  The hitbox is derived from the state and is not part of the Player.
\<close>

definition handle_input :: "Player \<Rightarrow> Input \<Rightarrow> Player" where
  "handle_input player input =
     (if jumpPressedThisTick input \<and> isGrounded player \<and> state player \<noteq> CROUCHING
      then player\<lparr>velocity_y := JUMP_VELOCITY, isGrounded := False, state := JUMPING\<rparr>
      else if crouchHeld input \<and> isGrounded player \<and> state player \<noteq> JUMPING
      then player\<lparr>state := CROUCHING\<rparr>
      else if \<not> crouchHeld input \<and> state player = CROUCHING
      then player\<lparr>state := RUNNING\<rparr>
      else player)"

text \<open>
  Modelled from the spec: \<^verbatim>\<open>update(player, input, dt, groundY) -> player'\<close>, which no
  source file implements. Rule 1: "If \<^verbatim>\<open>state == DEAD\<close>: no transition, no physics;
  player is frozen." Otherwise the input rules, then the physics integrator under
  gravity 800, then rule 5: "Landing: if airborne and \<^verbatim>\<open>isGrounded\<close> becomes true this
  tick (from Physics Integrator), and crouch is not held, \<^verbatim>\<open>state = RUNNING\<close>."
\<close>

definition update :: "Player \<Rightarrow> Input \<Rightarrow> real \<Rightarrow> real \<Rightarrow> Player" where
  "update player input dt groundY =
     (if state player = DEAD then player
      else
        let player = handle_input player input;
            airborne = \<not> isGrounded player;
            player = integrate player dt GRAVITY groundY
        in if airborne \<and> isGrounded player \<and> \<not> crouchHeld input
           then player\<lparr>state := RUNNING\<rparr>
           else player)"

text \<open>
  Modelled from the spec: the player's initial values, which no source file defines; the
  text gives them through scenario A ("groundY=400, starting position y=400 -> player
  remains RUNNING, y stays 400, velocity.y stays 0"): running, at rest, on the ground
  line. The horizontal start is a parameter.
\<close>

definition initial_player :: "real \<Rightarrow> real \<Rightarrow> Player" where
  "initial_player startX groundY =
     \<lparr>position_x = startX, position_y = groundY, velocity_x = 0, velocity_y = 0,
      isGrounded = True, state = RUNNING\<rparr>"

text \<open>
  Modelled from the spec: what can happen to the player in a run, which no source file
  declares: a tick with an input and a time step, the collision signal, and the
  orchestrator's reset.
\<close>

datatype event = Tick Input real | Collision | Reset

text \<open>
  Modelled from the spec: the effect of one event on the player, which no source file
  implements: a tick is \<^verbatim>\<open>update\<close>; the collision signal is rule 6 ("External collision
  signal forces \<^verbatim>\<open>state = DEAD\<close> regardless of the above"); a reset is "reset RunState
  and Player to initial values". The ground line is the same in every tick. The
  orchestrator allows these events only in some of its states; every order is admitted
  here, which covers its runs.
\<close>

fun player_step :: "real \<Rightarrow> real \<Rightarrow> Player \<Rightarrow> event \<Rightarrow> Player" where
  "player_step startX groundY player (Tick input dt) = update player input dt groundY"
| "player_step startX groundY player Collision = player\<lparr>state := DEAD\<rparr>"
| "player_step startX groundY player Reset = initial_player startX groundY"

text \<open>
  Modelled from the spec: the reachable player states, that is the player after any
  finite sequence of events from the initial values.
\<close>

definition player_after :: "real \<Rightarrow> real \<Rightarrow> event list \<Rightarrow> Player" where
  "player_after startX groundY events =
     foldl (player_step startX groundY) (initial_player startX groundY) events"

text \<open>
  The invariant that carries the induction over a run: a grounded player rests on the
  ground line, and a running or crouching player is grounded.
\<close>

definition grounded_at_rest :: "real \<Rightarrow> Player \<Rightarrow> bool" where
  "grounded_at_rest groundY p =
     ((isGrounded p \<longrightarrow> velocity_y p = 0 \<and> position_y p = groundY)
      \<and> (state p = RUNNING \<or> state p = CROUCHING \<longrightarrow> isGrounded p))"

text \<open>Sample inputs for the concrete runs.\<close>

definition no_input :: Input where
  "no_input =
     \<lparr>jumpPressedThisTick = False, crouchHeld = False, restartPressedThisTick = False\<rparr>"

definition jump_input :: Input where
  "jump_input = no_input\<lparr>jumpPressedThisTick := True\<rparr>"

definition crouch_input :: Input where
  "crouch_input = no_input\<lparr>crouchHeld := True\<rparr>"

section \<open>Properties of the graphics layer\<close>

lemmas graphics_defs =
  graphics_init_def graphics_shutdown_def graphics_should_close_def
  graphics_begin_frame_def graphics_end_frame_def graphics_clear_def
  graphics_draw_rectangle_def graphics_draw_texture_def graphics_draw_text_def
  graphics_load_texture_def graphics_unload_texture_def

subsection \<open>The conversion of ints to floats\<close>


lemma excess_bits_1: "excess_bits 16777217 = 1"
  by (simp add: excess_bits.simps)

lemma excess_bits_7: "excess_bits 2147483647 = 7"
  by (simp add: excess_bits.simps)

lemma float_of_int_rounds:
  "float_of_int 16777217 = 16777216"
  "float_of_int (- 2147483647) = - 2147483648"
  by (simp_all add: float_of_int_def Let_def excess_bits_1 excess_bits_7)

subsection \<open>Textures are placeholders in both backends\<close>

text \<open>
  C10. In both backends \<^verbatim>\<open>graphics_load_texture\<close> returns 1 for every file name and
  leaves the program's state as it was, so any two file names get the same id; and
  \<^verbatim>\<open>graphics_unload_texture\<close> and \<^verbatim>\<open>graphics_draw_texture\<close> return the state
  unchanged for all arguments: no call is issued to a library and no variable is written.
\<close>

theorem texture_operations_are_placeholders:
  "graphics_load_texture raylib_impl filename g = (1, g)
   \<and> graphics_load_texture sdl3_impl filename g = (1, g)
   \<and> fst (graphics_load_texture raylib_impl filename g)
       = fst (graphics_load_texture raylib_impl filename' g)
   \<and> fst (graphics_load_texture sdl3_impl filename g)
       = fst (graphics_load_texture sdl3_impl filename' g)
   \<and> graphics_unload_texture raylib_impl texture_id g = g
   \<and> graphics_unload_texture sdl3_impl texture_id g = g
   \<and> graphics_draw_texture raylib_impl texture_id dest tint g = g
   \<and> graphics_draw_texture sdl3_impl texture_id dest tint g = g"
  by (simp add: graphics_load_texture_def graphics_unload_texture_def
      graphics_draw_texture_def raylib_impl_def sdl3_impl_def
      raylib_platform_graphics_load_texture_def sdl3_platform_graphics_load_texture_def
      raylib_platform_graphics_unload_texture_def sdl3_platform_graphics_unload_texture_def
      raylib_platform_graphics_draw_texture_def sdl3_platform_graphics_draw_texture_def)

subsection \<open>The interface forwards to the platform bound at build time\<close>

lemma linked_raylib: "linked_platform (build (Some raylib) is_wasm) = Some raylib_impl"
  by (cases is_wasm) (simp_all add: linked_platform_def build_def Let_def)

lemma linked_default: "linked_platform (build None is_wasm) = Some raylib_impl"
  by (cases is_wasm) (simp_all add: linked_platform_def build_def Let_def)

lemma linked_sdl3: "linked_platform (build (Some sdl3) is_wasm) = Some sdl3_impl"
  by (cases is_wasm) (simp_all add: linked_platform_def build_def Let_def)

lemma linked_by_macro:
  "linked_platform \<lparr>files = [main_c, graphics_c, raylib_impl_c, sdl3_impl_c],
                     macros = {GRAPHICS_BACKEND_RAYLIB}\<rparr> = Some raylib_impl"
  "linked_platform \<lparr>files = [main_c, graphics_c, raylib_impl_c, sdl3_impl_c],
                     macros = {GRAPHICS_BACKEND_SDL3}\<rparr> = Some sdl3_impl"
  by (simp_all add: linked_platform_def)

text \<open>
  C1. Whatever platform \<open>P\<close> the \<^verbatim>\<open>extern\<close> declarations are bound to, each of the
  eleven public operations returns what the \<^verbatim>\<open>platform_graphics_*\<close> function of the
  same name returns on the same arguments, and changes the world exactly as that
  function does; \<^verbatim>\<open>graphics_init\<close> stores its backend argument besides. Which platform
  is bound is fixed when the program is built: a backend file contributes its
  definitions when its macro is defined and nothing otherwise, and a build with
  \<^verbatim>\<open>-Dgraphics=raylib\<close> (or no option) links the Raylib functions, one with
  \<^verbatim>\<open>-Dgraphics=sdl3\<close> the SDL3 functions; were both backend files compiled, the one
  macro defined would still decide.
\<close>

theorem graphics_forwards_to_platform:
  "graphics_init P w h title backend g
     = \<lparr>current_backend = backend, plat = platform_graphics_init P w h title (plat g)\<rparr>
   \<and> graphics_shutdown P g = g\<lparr>plat := platform_graphics_shutdown P (plat g)\<rparr>
   \<and> graphics_should_close P g
       = (fst (platform_graphics_should_close P (plat g)),
          g\<lparr>plat := snd (platform_graphics_should_close P (plat g))\<rparr>)
   \<and> graphics_begin_frame P g = g\<lparr>plat := platform_graphics_begin_frame P (plat g)\<rparr>
   \<and> graphics_end_frame P g = g\<lparr>plat := platform_graphics_end_frame P (plat g)\<rparr>
   \<and> graphics_clear P color g = g\<lparr>plat := platform_graphics_clear P color (plat g)\<rparr>
   \<and> graphics_draw_rectangle P rect color g
       = g\<lparr>plat := platform_graphics_draw_rectangle P rect color (plat g)\<rparr>
   \<and> graphics_draw_texture P texture_id rect color g
       = g\<lparr>plat := platform_graphics_draw_texture P texture_id rect color (plat g)\<rparr>
   \<and> graphics_draw_text P txt x y sz color g
       = g\<lparr>plat := platform_graphics_draw_text P txt x y sz color (plat g)\<rparr>
   \<and> graphics_load_texture P filename g
       = (fst (platform_graphics_load_texture P filename (plat g)),
          g\<lparr>plat := snd (platform_graphics_load_texture P filename (plat g))\<rparr>)
   \<and> graphics_unload_texture P texture_id g
       = g\<lparr>plat := platform_graphics_unload_texture P texture_id (plat g)\<rparr>
   \<and> platform_definitions raylib_impl_c (insert GRAPHICS_BACKEND_RAYLIB D) = [raylib_impl]
   \<and> platform_definitions raylib_impl_c (D - {GRAPHICS_BACKEND_RAYLIB}) = []
   \<and> platform_definitions sdl3_impl_c (insert GRAPHICS_BACKEND_SDL3 D) = [sdl3_impl]
   \<and> platform_definitions sdl3_impl_c (D - {GRAPHICS_BACKEND_SDL3}) = []
   \<and> linked_platform (build (Some raylib) is_wasm) = Some raylib_impl
   \<and> linked_platform (build (Some sdl3) is_wasm) = Some sdl3_impl
   \<and> linked_platform (build None is_wasm) = Some raylib_impl
   \<and> linked_platform \<lparr>files = [main_c, graphics_c, raylib_impl_c, sdl3_impl_c],
                        macros = {GRAPHICS_BACKEND_RAYLIB}\<rparr> = Some raylib_impl
   \<and> linked_platform \<lparr>files = [main_c, graphics_c, raylib_impl_c, sdl3_impl_c],
                        macros = {GRAPHICS_BACKEND_SDL3}\<rparr> = Some sdl3_impl"
  by (simp add: graphics_defs split_beta linked_raylib linked_sdl3 linked_default
      linked_by_macro)

subsection \<open>The backend argument of graphics_init is dead\<close>

text \<open>
  Two states with the same world answer every call alike and end with the same world:
  no operation reads \<^verbatim>\<open>current_backend\<close>.
\<close>

lemma graphics_call_plat:
  "plat g = plat g' \<Longrightarrow>
   fst (graphics_call P c g) = fst (graphics_call P c g')
   \<and> plat (snd (graphics_call P c g)) = plat (snd (graphics_call P c g'))"
  by (cases c) (simp_all add: graphics_defs split_beta)

lemma run_steps_plat:
  "plat g = plat g' \<Longrightarrow>
   fst (run_steps P steps g) = fst (run_steps P steps g')
   \<and> plat (snd (run_steps P steps g)) = plat (snd (run_steps P steps g'))"
proof (induction steps arbitrary: g g')
  case Nil
  then show ?case by simp
next
  case (Cons st steps)
  show ?case
  proof (cases st)
    case (Call c)
    from Cons.prems have c: "fst (graphics_call P c g) = fst (graphics_call P c g')"
      and p: "plat (snd (graphics_call P c g)) = plat (snd (graphics_call P c g'))"
      using graphics_call_plat by blast+
    from Cons.IH [OF p] c show ?thesis
      using Call by (simp add: split_beta)
  next
    case (Outside l)
    have "plat (g\<lparr>plat := (plat g)\<lparr>lib := l\<rparr>\<rparr>) = plat (g'\<lparr>plat := (plat g')\<lparr>lib := l\<rparr>\<rparr>)"
      using Cons.prems by simp
    from Cons.IH [OF this] show ?thesis
      using Outside by simp
  qed
qed

lemma graphics_call_current_backend:
  "current_backend (snd (graphics_call P c g))
     = (case c of Call_init w h title backend \<Rightarrow> backend | _ \<Rightarrow> current_backend g)"
  by (cases c) (simp_all add: graphics_defs split_beta)

text \<open>
  C3. \<^verbatim>\<open>current_backend\<close> starts as \<^verbatim>\<open>GRAPHICS_RAYLIB\<close>; a call of
  \<^verbatim>\<open>graphics_init\<close> overwrites it with its backend argument and every other call
  leaves it as it is. For any bound platform, any state, and two calls of
  \<^verbatim>\<open>graphics_init\<close> that differ in the backend argument only, every sequence of later
  calls (interleaved with any changes the outside makes to the libraries) returns the
  same values in both runs and ends in the same world: the same library calls in the
  same order, the same library state, the same backend statics.
\<close>

theorem backend_argument_is_dead:
  "fst (run_steps P (Call (Call_init w h title b1) # steps) g)
     = fst (run_steps P (Call (Call_init w h title b2) # steps) g)
   \<and> plat (snd (run_steps P (Call (Call_init w h title b1) # steps) g))
     = plat (snd (run_steps P (Call (Call_init w h title b2) # steps) g))
   \<and> current_backend (program_start l) = GRAPHICS_RAYLIB
   \<and> current_backend (snd (graphics_call P c g))
     = (case c of Call_init w h title backend \<Rightarrow> backend | _ \<Rightarrow> current_backend g)"
proof -
  have "plat (graphics_init P w h title b1 g) = plat (graphics_init P w h title b2 g)"
    by (simp add: graphics_init_def)
  from run_steps_plat [OF this, of P steps] show ?thesis
    by (simp add: split_beta program_start_def graphics_call_current_backend)
qed

subsection \<open>The close flag of the SDL3 backend\<close>

lemma sdl3_poll_events_eq:
  "sdl3_poll_events es s =
     s\<lparr>should_close := should_close s \<or> (\<exists>e\<in>set es. closes_window e),
       lib := (lib s)\<lparr>SDL_event_queue := []\<rparr>\<rparr>"
proof (induction es arbitrary: s)
  case Nil
  then show ?case by simp
next
  case (Cons e es)
  obtain ty k where e: "e = SDL_Event ty k" by (cases e)
  show ?case
    unfolding e by (auto simp: Cons.IH)
qed

lemma sdl3_should_close_eq:
  "sdl3_platform_graphics_should_close s =
     (should_close s \<or> (\<exists>e\<in>set (SDL_event_queue (lib s)). closes_window e),
      s\<lparr>should_close := should_close s \<or> (\<exists>e\<in>set (SDL_event_queue (lib s)). closes_window e),
        lib := (lib s)\<lparr>SDL_event_queue := []\<rparr>\<rparr>)"
  by (simp add: sdl3_platform_graphics_should_close_def sdl3_poll_events_eq Let_def)

lemma should_close_issue: "should_close (issue c s) = should_close s"
  by (simp add: issue_def)

lemma sdl3_init_should_close:
  "should_close (sdl3_platform_graphics_init w h title s) = should_close s"
  by (simp add: sdl3_platform_graphics_init_def Let_def should_close_issue)

lemma sdl3_shutdown_should_close:
  "should_close (sdl3_platform_graphics_shutdown s) = should_close s"
  by (simp add: sdl3_platform_graphics_shutdown_def Let_def should_close_issue)

lemma sdl3_clear_should_close:
  "should_close (sdl3_platform_graphics_clear color s) = should_close s"
  by (cases color) (simp add: Let_def should_close_issue)

lemma sdl3_draw_rectangle_should_close:
  "should_close (sdl3_platform_graphics_draw_rectangle rect color s) = should_close s"
  by (cases rect; cases color) (simp add: Let_def should_close_issue)

lemma sdl3_draw_text_should_close:
  "should_close (sdl3_platform_graphics_draw_text txt x y sz color s) = should_close s"
  by (cases color) (simp add: Let_def should_close_issue)

lemma sdl3_call_keeps_should_close:
  "should_close (plat g) \<Longrightarrow> should_close (plat (snd (graphics_call sdl3_impl c g)))"
  by (cases c)
    (simp_all add: graphics_defs sdl3_impl_def split_beta sdl3_should_close_eq
      sdl3_init_should_close sdl3_shutdown_should_close sdl3_clear_should_close
      sdl3_draw_rectangle_should_close sdl3_draw_text_should_close should_close_issue
      sdl3_platform_graphics_begin_frame_def sdl3_platform_graphics_end_frame_def
      sdl3_platform_graphics_draw_texture_def sdl3_platform_graphics_load_texture_def
      sdl3_platform_graphics_unload_texture_def)

lemma sdl3_call_answer:
  "should_close (plat g) \<Longrightarrow> fst (graphics_call sdl3_impl c g) \<noteq> Returns_bool False"
  by (cases c)
    (simp_all add: graphics_should_close_def sdl3_impl_def split_beta sdl3_should_close_eq)

lemma sdl3_run_keeps_should_close:
  "should_close (plat g) \<Longrightarrow>
   should_close (plat (snd (run_steps sdl3_impl steps g)))
   \<and> Returns_bool False \<notin> set (fst (run_steps sdl3_impl steps g))"
proof (induction steps arbitrary: g)
  case Nil
  then show ?case by simp
next
  case (Cons st steps)
  show ?case
  proof (cases st)
    case (Call c)
    have "should_close (plat (snd (graphics_call sdl3_impl c g)))"
      using Cons.prems by (rule sdl3_call_keeps_should_close)
    from Cons.IH [OF this] sdl3_call_answer [OF Cons.prems, of c] show ?thesis
      using Call by (auto simp: split_beta)
  next
    case (Outside l)
    have "should_close (plat (g\<lparr>plat := (plat g)\<lparr>lib := l\<rparr>\<rparr>))"
      using Cons.prems by simp
    from Cons.IH [OF this] show ?thesis
      using Outside by simp
  qed
qed

text \<open>
  C9. In the SDL3 backend \<^verbatim>\<open>platform_graphics_should_close\<close> returns true exactly when
  the flag was already set or one of the queued events is \<^verbatim>\<open>SDL_EVENT_QUIT\<close> or a
  key-down of \<^verbatim>\<open>SDLK_ESCAPE\<close>, for every state and every queue; what it returns is what
  it leaves in the flag; and it changes nothing but the flag and the queue, which it
  empties. Once it has returned true, then after any sequence of calls of the
  interface, with any changes of the libraries' state in between, the next call returns
  true, and no call of that sequence has returned false: no operation clears the flag.
\<close>

theorem sdl3_should_close_is_monotone:
  "sdl3_platform_graphics_should_close s =
     (should_close s \<or> (\<exists>e\<in>set (SDL_event_queue (lib s)). closes_window e),
      s\<lparr>should_close := should_close s \<or> (\<exists>e\<in>set (SDL_event_queue (lib s)). closes_window e),
        lib := (lib s)\<lparr>SDL_event_queue := []\<rparr>\<rparr>)
   \<and> closes_window (SDL_Event ty k)
       = (ty = SDL_EVENT_QUIT \<or> (ty = SDL_EVENT_KEY_DOWN \<and> k = SDLK_ESCAPE))
   \<and> (fst (sdl3_platform_graphics_should_close s)
        \<and> plat g = snd (sdl3_platform_graphics_should_close s) \<longrightarrow>
        fst (graphics_should_close sdl3_impl (snd (run_steps sdl3_impl steps g)))
        \<and> Returns_bool False \<notin> set (fst (run_steps sdl3_impl steps g)))"
proof -
  have later: "fst (graphics_should_close sdl3_impl (snd (run_steps sdl3_impl steps g)))
      \<and> Returns_bool False \<notin> set (fst (run_steps sdl3_impl steps g))"
    if "fst (sdl3_platform_graphics_should_close s)"
      and "plat g = snd (sdl3_platform_graphics_should_close s)"
  proof -
    from that have "should_close (plat g)"
      by (simp add: sdl3_should_close_eq)
    from sdl3_run_keeps_should_close [OF this, of steps] show ?thesis
      by (simp add: graphics_should_close_def sdl3_impl_def split_beta sdl3_should_close_eq)
  qed
  have event: "closes_window (SDL_Event ty k)
      = (ty = SDL_EVENT_QUIT \<or> (ty = SDL_EVENT_KEY_DOWN \<and> k = SDLK_ESCAPE))"
    by simp
  from later event sdl3_should_close_eq [of s] show ?thesis
    by blast
qed

theorem sdl3_should_close_is_monotone_witness:
  "fst (sdl3_platform_graphics_should_close (plat (program_start quit_requested)))
   \<and> fst (sdl3_platform_graphics_should_close (plat (program_start escape_pressed)))
   \<and> \<not> fst (sdl3_platform_graphics_should_close (plat (program_start letter_pressed)))
   \<and> fst (graphics_should_close sdl3_impl
        (snd (run_steps sdl3_impl
           [Call (Call_init 800 450 ''Infinite Runner'' GRAPHICS_SDL3), Outside letter_pressed,
            Call Call_should_close, Call Call_shutdown]
           \<lparr>current_backend = GRAPHICS_RAYLIB,
            plat = snd (sdl3_platform_graphics_should_close
                          (plat (program_start quit_requested)))\<rparr>)))
   \<and> Returns_bool False \<notin> set (fst (run_steps sdl3_impl
           [Call (Call_init 800 450 ''Infinite Runner'' GRAPHICS_SDL3), Outside letter_pressed,
            Call Call_should_close, Call Call_shutdown]
           \<lparr>current_backend = GRAPHICS_RAYLIB,
            plat = snd (sdl3_platform_graphics_should_close
                          (plat (program_start quit_requested)))\<rparr>))
   \<and> fst (graphics_should_close sdl3_impl
        (snd (run_steps sdl3_impl
           [Call Call_should_close, Outside quiet, Call Call_end_frame]
           \<lparr>current_backend = GRAPHICS_SDL3,
            plat = snd (sdl3_platform_graphics_should_close
                          (plat (program_start escape_pressed)))\<rparr>)))"
proof -
  let ?q = "plat (program_start quit_requested)"
  let ?e = "plat (program_start escape_pressed)"
  let ?l = "plat (program_start letter_pressed)"
  note T = sdl3_should_close_is_monotone
  have q: "fst (sdl3_platform_graphics_should_close ?q)"
    unfolding T [of ?q, THEN conjunct1]
    by (simp add: program_start_def quit_requested_def quiet_def)
  have e: "fst (sdl3_platform_graphics_should_close ?e)"
    unfolding T [of ?e, THEN conjunct1]
    by (simp add: program_start_def escape_pressed_def quiet_def)
  have l: "\<not> fst (sdl3_platform_graphics_should_close ?l)"
    unfolding T [of ?l, THEN conjunct1]
    by (simp add: program_start_def letter_pressed_def quiet_def)
  have pq: "plat \<lparr>current_backend = GRAPHICS_RAYLIB,
                  plat = snd (sdl3_platform_graphics_should_close ?q)\<rparr>
            = snd (sdl3_platform_graphics_should_close ?q)"
    by simp
  have pe: "plat \<lparr>current_backend = GRAPHICS_SDL3,
                  plat = snd (sdl3_platform_graphics_should_close ?e)\<rparr>
            = snd (sdl3_platform_graphics_should_close ?e)"
    by simp
  from T [of ?q _ _ _ "[Call (Call_init 800 450 ''Infinite Runner'' GRAPHICS_SDL3),
        Outside letter_pressed, Call Call_should_close, Call Call_shutdown]"] q pq
    T [of ?e _ _ _ "[Call Call_should_close, Outside quiet, Call Call_end_frame]"] e pe l
  show ?thesis
    by blast
qed

subsection \<open>The loop of main\<close>



lemma raylib_graphics_should_close:
  "graphics_should_close raylib_impl g = (WindowShouldClose (lib (plat g)), g)"
  by (simp add: graphics_should_close_def raylib_impl_def
      raylib_platform_graphics_should_close_def)




text \<open>While no close request comes, the loop does not return: it uses up any fuel.\<close>

lemma raylib_loop_keeps_running:
  "(\<forall>j<fuel. \<not> WindowShouldClose (outside (i + j))) \<Longrightarrow>
   main_loop raylib_impl outside fuel i g = None"
proof (induction fuel arbitrary: i g)
  case 0
  then show ?case by simp
next
  case (Suc fuel)
  from Suc.prems have now: "\<not> WindowShouldClose (outside i)"
    by (metis add.right_neutral zero_less_Suc)
  have later: "\<forall>j<fuel. \<not> WindowShouldClose (outside (Suc i + j))"
    using Suc.prems by (metis Suc_less_eq add_Suc_right add_Suc)
  show ?case
    using now Suc.IH [OF later] by (simp add: raylib_graphics_should_close)
qed












section \<open>Properties of the specified simulation core\<close>

subsection \<open>Difficulty scheduler\<close>

lemma speedMultiplier_mono: "s \<le> t \<Longrightarrow> speedMultiplier s \<le> speedMultiplier t"
proof -
  assume "s \<le> t"
  then have "s / 5 \<le> t / 5" by simp
  then have "\<lfloor>s / 5\<rfloor> \<le> \<lfloor>t / 5\<rfloor>" by (rule floor_mono)
  then have "1 + 0.15 * (of_int \<lfloor>s / 5\<rfloor> :: real) \<le> 1 + 0.15 * of_int \<lfloor>t / 5\<rfloor>"
    by simp
  then show ?thesis
    unfolding speedMultiplier_def by (rule min.mono) simp
qed

lemma speedMultiplier_tier:
  assumes "5 * real k \<le> t" and "t < 5 * real (Suc k)"
  shows "speedMultiplier t = (if k \<le> 10 then 1 + 0.15 * real k else 2.5)"
proof -
  have "\<lfloor>t / 5\<rfloor> = int k"
    using assms by (simp add: floor_eq_iff)
  then show ?thesis
    unfolding speedMultiplier_def by (auto simp: min_def)
qed

text \<open>
  C4. The specified \<^verbatim>\<open>speedMultiplier\<close> is non-decreasing in the elapsed time and never
  above 2.5; from time 0 on it is at least 1; in the \<open>k\<close>-th five-second tier
  (\<open>5k \<le> t < 5(k+1)\<close>) it is \<open>1 + 0.15 k\<close> up to the tenth tier and 2.5 from then
  on, which is \<open>min(1 + 0.15 * floor(t / 5), 2.5)\<close> tier by tier; and at 12 seconds it
  is 1.30.
\<close>

theorem speedMultiplier_properties:
  "(\<forall>s t. s \<le> t \<longrightarrow> speedMultiplier s \<le> speedMultiplier t)
   \<and> (\<forall>t. speedMultiplier t \<le> 2.5)
   \<and> (\<forall>t\<ge>0. 1 \<le> speedMultiplier t)
   \<and> (\<forall>t k. 5 * real k \<le> t \<and> t < 5 * real (Suc k) \<longrightarrow>
         speedMultiplier t = (if k \<le> 10 then 1 + 0.15 * real k else 2.5))
   \<and> (\<forall>t\<ge>0. speedMultiplier t = min (1 + 0.15 * real (nat \<lfloor>t / 5\<rfloor>)) 2.5)
   \<and> speedMultiplier 12 = 1.30"
proof -
  have bound: "\<forall>t. speedMultiplier t \<le> 2.5"
    unfolding speedMultiplier_def by (simp only: min.cobounded2 simp_thms)
  have low: "\<forall>t\<ge>0. 1 \<le> speedMultiplier t"
    by (simp add: speedMultiplier_def)
  have formula: "\<forall>t\<ge>0. speedMultiplier t = min (1 + 0.15 * real (nat \<lfloor>t / 5\<rfloor>)) 2.5"
    by (simp add: speedMultiplier_def)
  have twelve: "speedMultiplier 12 = 1.30"
    by (simp add: speedMultiplier_def)
  from speedMultiplier_mono speedMultiplier_tier bound low formula twelve
  show ?thesis by blast
qed

theorem speedMultiplier_properties_witness:
  "speedMultiplier 4.9 \<le> speedMultiplier 12
   \<and> speedMultiplier 60 \<le> 2.5
   \<and> 1 \<le> speedMultiplier 0
   \<and> speedMultiplier 12 = 1 + 0.15 * real 2
   \<and> speedMultiplier 60 = 2.5
   \<and> speedMultiplier 49 = min (1 + 0.15 * real (nat \<lfloor>49 / 5 :: real\<rfloor>)) 2.5"
proof -
  note P = speedMultiplier_properties
  have a: "(4.9 :: real) \<le> 12" by simp
  have b: "(0 :: real) \<le> 0" by simp
  have c: "5 * real 2 \<le> (12 :: real) \<and> (12 :: real) < 5 * real (Suc 2)" by simp
  have d: "5 * real 12 \<le> (60 :: real) \<and> (60 :: real) < 5 * real (Suc 12)" by simp
  have e: "(0 :: real) \<le> 49" by simp
  have 1: "speedMultiplier 4.9 \<le> speedMultiplier 12"
    using P a by blast
  have 2: "speedMultiplier 60 \<le> 2.5"
    using P by blast
  have 3: "1 \<le> speedMultiplier 0"
    using P b by blast
  have "speedMultiplier 12 = (if (2::nat) \<le> 10 then 1 + 0.15 * real 2 else 2.5)"
    using P c by blast
  then have 4: "speedMultiplier 12 = 1 + 0.15 * real 2"
    by simp
  have "speedMultiplier 60 = (if (12::nat) \<le> 10 then 1 + 0.15 * real 12 else 2.5)"
    using P d by blast
  then have 5: "speedMultiplier 60 = 2.5"
    by simp
  have 6: "speedMultiplier 49 = min (1 + 0.15 * real (nat \<lfloor>49 / 5 :: real\<rfloor>)) 2.5"
    using P e by blast
  from 1 2 3 4 5 6 show ?thesis
    by simp
qed

subsection \<open>Physics integrator\<close>

lemma integrate_closed_form:
  "integrate body dt gravity groundY =
     (let step = min dt MAX_STEP;
          vy = velocity_y body + gravity * step;
          px = position_x body + velocity_x body * step;
          py = position_y body + vy * step
      in if py \<ge> groundY
         then body\<lparr>velocity_y := 0, position_x := px, position_y := groundY, isGrounded := True\<rparr>
         else body\<lparr>velocity_y := vy, position_x := px, position_y := py, isGrounded := False\<rparr>)"
  by (simp add: integrate_def clamp_dt_def apply_gravity_def advance_position_def
      resolve_ground_contact_def Let_def)

lemma integrate_grounded:
  "isGrounded (integrate body dt gravity groundY) \<Longrightarrow>
   velocity_y (integrate body dt gravity groundY) = 0
   \<and> position_y (integrate body dt gravity groundY) = groundY"
  by (simp add: integrate_closed_form Let_def split: if_splits)

lemma integrate_stays_grounded:
  assumes "0 \<le> gravity" "velocity_y body = 0" "position_y body = groundY"
  shows "isGrounded (integrate body dt gravity groundY)"
proof -
  have "0 \<le> gravity * (min dt MAX_STEP * min dt MAX_STEP)"
    using assms(1) by simp
  then show ?thesis
    using assms by (simp add: integrate_closed_form Let_def algebra_simps)
qed

lemma integrate_state: "state (integrate p dt gravity groundY) = state p"
  by (simp add: integrate_closed_form Let_def)

lemma integrate_clamped:
  "integrate body dt gravity groundY = integrate body (min dt MAX_STEP) gravity groundY"
  by (simp add: integrate_def clamp_dt_def)

lemma integrate_long_step:
  "integrate body (max dt MAX_STEP) gravity groundY = integrate body MAX_STEP gravity groundY"
  by (simp add: integrate_def clamp_dt_def)

text \<open>
  C5. The specified \<^verbatim>\<open>integrate\<close>, in closed form: with the step \<open>min dt MAX_STEP\<close>
  (\<open>MAX_STEP\<close> being 1/30), the new vertical velocity is the old one plus gravity times
  the step; the new position is the old one plus the velocity times the step, the
  vertical part with the velocity already updated; when that vertical position is at or
  beyond \<^verbatim>\<open>groundY\<close> the body is put on the ground line with vertical velocity 0 and
  \<^verbatim>\<open>isGrounded\<close> true, otherwise \<^verbatim>\<open>isGrounded\<close> is false. The clamp always applies:
  a step of \<open>dt\<close> is a step of \<open>min dt MAX_STEP\<close>, and every step of at least
  \<open>MAX_STEP\<close> is a step of \<open>MAX_STEP\<close>.
\<close>

theorem integrate_contract:
  "integrate body dt gravity groundY =
     (let step = min dt MAX_STEP;
          vy = velocity_y body + gravity * step;
          px = position_x body + velocity_x body * step;
          py = position_y body + vy * step
      in if py \<ge> groundY
         then body\<lparr>velocity_y := 0, position_x := px, position_y := groundY, isGrounded := True\<rparr>
         else body\<lparr>velocity_y := vy, position_x := px, position_y := py, isGrounded := False\<rparr>)
   \<and> MAX_STEP = 1 / 30
   \<and> integrate body dt gravity groundY = integrate body (min dt MAX_STEP) gravity groundY
   \<and> integrate body (max dt MAX_STEP) gravity groundY = integrate body MAX_STEP gravity groundY"
  using integrate_closed_form [of body dt gravity groundY]
    integrate_clamped [of body dt gravity groundY]
    integrate_long_step [of body dt gravity groundY]
  by (simp add: MAX_STEP_def)

subsection \<open>Player state machine\<close>

lemma handle_input_invariant:
  assumes "grounded_at_rest groundY p"
  shows "grounded_at_rest groundY (handle_input p input)"
proof -
  consider (jump) "handle_input p input
        = p\<lparr>velocity_y := JUMP_VELOCITY, isGrounded := False, state := JUMPING\<rparr>"
    | (crouch) "isGrounded p" "handle_input p input = p\<lparr>state := CROUCHING\<rparr>"
    | (rise) "state p = CROUCHING" "handle_input p input = p\<lparr>state := RUNNING\<rparr>"
    | (none) "handle_input p input = p"
    unfolding handle_input_def by presburger
  then show ?thesis
  proof cases
    case jump
    then show ?thesis by (simp add: grounded_at_rest_def)
  next
    case crouch
    then show ?thesis using assms by (simp add: grounded_at_rest_def)
  next
    case rise
    then show ?thesis using assms by (simp add: grounded_at_rest_def)
  next
    case none
    then show ?thesis using assms by simp
  qed
qed

lemma update_alive:
  "state p \<noteq> DEAD \<Longrightarrow>
   update p input dt groundY = integrate (handle_input p input) dt GRAVITY groundY
   \<or> (isGrounded (integrate (handle_input p input) dt GRAVITY groundY)
       \<and> update p input dt groundY
           = (integrate (handle_input p input) dt GRAVITY groundY)\<lparr>state := RUNNING\<rparr>)"
  by (simp add: update_def Let_def)

lemma update_invariant:
  assumes "grounded_at_rest groundY p"
  shows "grounded_at_rest groundY (update p input dt groundY)"
proof (cases "state p = DEAD")
  case True
  then show ?thesis using assms by (simp add: update_def)
next
  case False
  let ?h = "handle_input p input"
  let ?q = "integrate ?h dt GRAVITY groundY"
  have rest: "isGrounded ?q \<longrightarrow> velocity_y ?q = 0 \<and> position_y ?q = groundY"
    using integrate_grounded by blast
  have h: "grounded_at_rest groundY ?h"
    using assms by (rule handle_input_invariant)
  have stay: "state ?q = RUNNING \<or> state ?q = CROUCHING \<longrightarrow> isGrounded ?q"
  proof
    assume "state ?q = RUNNING \<or> state ?q = CROUCHING"
    then have "state ?h = RUNNING \<or> state ?h = CROUCHING"
      by (simp add: integrate_state)
    with h have "velocity_y ?h = 0" "position_y ?h = groundY"
      by (simp_all add: grounded_at_rest_def)
    then show "isGrounded ?q"
      by (intro integrate_stays_grounded) (simp_all add: GRAVITY_def)
  qed
  from rest stay have q: "grounded_at_rest groundY ?q"
    by (simp add: grounded_at_rest_def)
  from update_alive [OF False, of input dt groundY] show ?thesis
  proof
    assume "update p input dt groundY = ?q"
    with q show ?thesis by simp
  next
    assume "isGrounded ?q \<and> update p input dt groundY = ?q\<lparr>state := RUNNING\<rparr>"
    with rest show ?thesis by (simp add: grounded_at_rest_def)
  qed
qed

lemma initial_invariant: "grounded_at_rest groundY (initial_player startX groundY)"
  by (simp add: grounded_at_rest_def initial_player_def)

lemma step_invariant:
  assumes "grounded_at_rest groundY p"
  shows "grounded_at_rest groundY (player_step startX groundY p e)"
proof (cases e)
  case (Tick input dt)
  then show ?thesis using assms by (simp add: update_invariant)
next
  case Collision
  then show ?thesis using assms by (simp add: grounded_at_rest_def)
next
  case Reset
  then show ?thesis by (simp add: initial_invariant)
qed

lemma foldl_invariant:
  "grounded_at_rest groundY p \<Longrightarrow>
   grounded_at_rest groundY (foldl (player_step startX groundY) p events)"
  by (induction events arbitrary: p) (simp_all add: step_invariant)

lemma reachable_invariant: "grounded_at_rest groundY (player_after startX groundY events)"
  unfolding player_after_def by (rule foldl_invariant) (rule initial_invariant)

text \<open>
  C6. In the specified state machine, for the player \<open>p\<close> reached from the initial
  values by any sequence of ticks (any input, any time step), collision signals and
  resets over a fixed ground line: if \<open>p\<close> is RUNNING or CROUCHING then its vertical
  velocity is 0 and it is grounded; if it is grounded then its vertical velocity is 0;
  and if it is DEAD then a tick returns it unchanged, whatever the input and the time
  step, so that only a reset changes it.
\<close>

theorem player_invariant:
  "(state (player_after startX groundY events) = RUNNING
      \<or> state (player_after startX groundY events) = CROUCHING \<longrightarrow>
      velocity_y (player_after startX groundY events) = 0
      \<and> isGrounded (player_after startX groundY events))
   \<and> (isGrounded (player_after startX groundY events) \<longrightarrow>
        velocity_y (player_after startX groundY events) = 0)
   \<and> (state (player_after startX groundY events) = DEAD \<longrightarrow>
        update (player_after startX groundY events) input dt groundY
          = player_after startX groundY events)"
  using reachable_invariant [of groundY startX events]
  by (auto simp: grounded_at_rest_def update_def)

lemmas player_eval =
  player_after_def update_def handle_input_def integrate_closed_form
  initial_player_def jump_input_def crouch_input_def no_input_def
  MAX_STEP_def GRAVITY_def JUMP_VELOCITY_def Let_def

theorem player_invariant_witness:
  "state (player_after 0 400
            [Tick jump_input (1/60), Collision, Reset, Tick crouch_input (1/60)]) = CROUCHING
   \<and> velocity_y (player_after 0 400
            [Tick jump_input (1/60), Collision, Reset, Tick crouch_input (1/60)]) = 0
   \<and> isGrounded (player_after 0 400
            [Tick jump_input (1/60), Collision, Reset, Tick crouch_input (1/60)])
   \<and> state (player_after 0 400
            [Tick jump_input (1/60), Tick no_input (1/60), Collision]) = DEAD
   \<and> update (player_after 0 400 [Tick jump_input (1/60), Tick no_input (1/60), Collision])
         jump_input (1/60) 400
       = player_after 0 400 [Tick jump_input (1/60), Tick no_input (1/60), Collision]"
proof -
  let ?crouching = "player_after 0 400
                      [Tick jump_input (1/60), Collision, Reset, Tick crouch_input (1/60)]"
  let ?dead = "player_after 0 400 [Tick jump_input (1/60), Tick no_input (1/60), Collision]"
  have c: "state ?crouching = CROUCHING"
    by (simp add: player_eval)
  have d: "state ?dead = DEAD"
    by (simp add: player_eval)
  from player_invariant
    [of 0 400 "[Tick jump_input (1/60), Collision, Reset, Tick crouch_input (1/60)]"] c
  have 1: "velocity_y ?crouching = 0 \<and> isGrounded ?crouching"
    by blast
  from player_invariant
    [of 0 400 "[Tick jump_input (1/60), Tick no_input (1/60), Collision]" jump_input "1/60"] d
  have 2: "update ?dead jump_input (1/60) 400 = ?dead"
    by blast
  from c d 1 2 show ?thesis
    by blast
qed

text \<open>
  C7. In the specified state machine a jump request made while the player is not
  grounded is without effect: the input handling leaves the vertical velocity as it is,
  and the whole tick gives the same player as the tick without the request.
\<close>

theorem no_double_jump:
  "\<not> isGrounded player \<Longrightarrow>
   velocity_y (handle_input player (input\<lparr>jumpPressedThisTick := True\<rparr>)) = velocity_y player
   \<and> update player (input\<lparr>jumpPressedThisTick := True\<rparr>) dt groundY
       = update player (input\<lparr>jumpPressedThisTick := False\<rparr>) dt groundY"
  by (simp add: update_def handle_input_def)

theorem no_double_jump_witness:
  "\<not> isGrounded (player_after 0 400 [Tick jump_input (1/60)])
   \<and> velocity_y (handle_input (player_after 0 400 [Tick jump_input (1/60)])
                   (no_input\<lparr>jumpPressedThisTick := True\<rparr>))
       = velocity_y (player_after 0 400 [Tick jump_input (1/60)])
   \<and> update (player_after 0 400 [Tick jump_input (1/60)])
         (no_input\<lparr>jumpPressedThisTick := True\<rparr>) (1/60) 400
       = update (player_after 0 400 [Tick jump_input (1/60)])
           (no_input\<lparr>jumpPressedThisTick := False\<rparr>) (1/60) 400"
proof -
  have airborne: "\<not> isGrounded (player_after 0 400 [Tick jump_input (1/60)])"
    by (simp add: player_eval)
  from no_double_jump [OF airborne, of no_input "1/60" 400] airborne show ?thesis
    by blast
qed


end
